theory Spec2Isabelle
  imports Complex_Main "HOL-Library.AList"
begin

section \<open>Host-language primitives\<close>

text \<open>
  The reports are computed by a JavaScript program (\<^verbatim>\<open>src/main.js\<close>) from two
  arrays of rows; a row is an array of strings.  The following conventions are used
  throughout the embedding.

  \<^item> A raw row is a \<open>string list\<close>; reading a column beyond the end of the row gives
    \<^verbatim>\<open>undefined\<close>, modelled as \<open>None\<close>.
  \<^item> A number that is always integral in the program (seconds, minutes, seat counts)
    is an \<open>int option\<close>, a number that may be fractional is a \<open>rat option\<close>; in both
    \<open>None\<close> is \<^verbatim>\<open>NaN\<close>.  Arithmetic is exact: the rounding error of binary floating
    point and the infinities are outside the embedding.
  \<^item> Characters are bytes; only ASCII white space and ASCII letters are recognised
    by \<open>trim\<close> and \<open>toLowerCase\<close>.
  \<^item> Objects used as dictionaries are association lists in insertion order; the
    reordering of integer-like keys on enumeration and keys that collide with members
    of \<^verbatim>\<open>Object.prototype\<close> are outside the embedding.
\<close>

type_synonym row = "string list"

definition col :: "row \<Rightarrow> nat \<Rightarrow> string option" where
  "col r i = (if i < length r then Some (r ! i) else None)"

text \<open>\<^verbatim>\<open>!v\<close> for a value that is a string or \<^verbatim>\<open>undefined\<close>.\<close>

definition falsy :: "string option \<Rightarrow> bool" where
  "falsy v = (case v of None \<Rightarrow> True | Some s \<Rightarrow> s = [])"

text \<open>\<^verbatim>\<open>v || ''\<close>.\<close>

definition orEmpty :: "string option \<Rightarrow> string" where
  "orEmpty v = (case v of None \<Rightarrow> [] | Some s \<Rightarrow> s)"

definition isSpace :: "char \<Rightarrow> bool" where
  "isSpace c = (c = CHR 0x20 \<or> c = CHR 0x09 \<or> c = CHR 0x0A \<or> c = CHR 0x0B
                \<or> c = CHR 0x0C \<or> c = CHR 0x0D)"

definition trim :: "string \<Rightarrow> string" where
  "trim s = rev (dropWhile isSpace (rev (dropWhile isSpace s)))"

definition lowerChar :: "char \<Rightarrow> char" where
  "lowerChar c = (let n = (of_char c :: nat) in
                    if 65 \<le> n \<and> n \<le> 90 then char_of (n + 32) else c)"

definition toLowerCase :: "string \<Rightarrow> string" where
  "toLowerCase s = map lowerChar s"

text \<open>\<^verbatim>\<open>parseBoolean(v) = v?.trim().toLowerCase() === 'true'\<close>\<close>

definition parseBoolean :: "string option \<Rightarrow> bool" where
  "parseBoolean v = (case v of None \<Rightarrow> False | Some s \<Rightarrow> toLowerCase (trim s) = ''true'')"

definition digitVal :: "char \<Rightarrow> nat option" where
  "digitVal c = (let n = (of_char c :: nat) in
                   if 48 \<le> n \<and> n \<le> 57 then Some (n - 48) else None)"

definition isDigit :: "char \<Rightarrow> bool" where
  "isDigit c = (digitVal c \<noteq> None)"

definition digitsVal :: "string \<Rightarrow> nat" where
  "digitsVal ds = foldl (\<lambda>acc c. 10 * acc + (case digitVal c of Some d \<Rightarrow> d | None \<Rightarrow> 0)) 0 ds"

text \<open>
  \<^verbatim>\<open>parseInt(v, 10)\<close>: leading white space, an optional sign, then the longest prefix
  of decimal digits; \<^verbatim>\<open>NaN\<close> when there is no digit (also for \<^verbatim>\<open>undefined\<close>).
\<close>

definition parseInt10 :: "string option \<Rightarrow> int option" where
  "parseInt10 v =
     (case v of
        None \<Rightarrow> None
      | Some s \<Rightarrow>
          (let t = dropWhile isSpace s;
               neg = (t \<noteq> [] \<and> hd t = CHR ''-'');
               r = (if t \<noteq> [] \<and> (hd t = CHR ''-'' \<or> hd t = CHR ''+'') then tl t else t);
               ds = takeWhile isDigit r
           in if ds = [] then None
              else Some (if neg then - int (digitsVal ds) else int (digitsVal ds))))"

text \<open>\<^verbatim>\<open>Math.round\<close>: the nearest integer, a tie going up.\<close>

definition mathRound :: "rat \<Rightarrow> int" where
  "mathRound x = \<lfloor>x + 1 / 2\<rfloor>"

text \<open>
  \<^verbatim>\<open>x.toFixed(2)\<close> read back as a number: the nearest multiple of \<open>1/100\<close>, a tie
  going away from zero (the sign is split off first).
\<close>

definition toFixed2 :: "rat \<Rightarrow> rat" where
  "toFixed2 x = (if x < 0 then - (of_int \<lfloor>- x * 100 + 1 / 2\<rfloor> / 100)
                 else of_int \<lfloor>x * 100 + 1 / 2\<rfloor> / 100)"

text \<open>\<^verbatim>\<open>s.replace(' ', 'T')\<close> replaces the first blank only.\<close>

fun replaceSpaceT :: "string \<Rightarrow> string" where
  "replaceSpaceT [] = []"
| "replaceSpaceT (c # cs) = (if c = CHR 0x20 then CHR ''T'' # cs else c # replaceSpaceT cs)"

subsection \<open>Dates\<close>

text \<open>
  \<^verbatim>\<open>new Date(s)\<close> is a service of the host: every function that parses a date takes
  the parser as its first argument \<open>dp\<close>, which returns the milliseconds since the
  epoch, or \<open>None\<close> for an \<^verbatim>\<open>Invalid Date\<close>.  The general theorems hold for every
  parser.  For concrete inputs \<open>isoDate\<close> reads the one format the program documents,
  \<^verbatim>\<open>YYYY-MM-DDTHH:MM:SS\<close>, with the local time zone taken as UTC, and rejects every
  other string.
\<close>

definition daysFromCivil :: "int \<Rightarrow> int \<Rightarrow> int \<Rightarrow> int" where
  "daysFromCivil y m d =
     (let y' = (if m \<le> 2 then y - 1 else y);
          era = y' div 400;
          yoe = y' - era * 400;
          mp = (m + 9) mod 12;
          doy = (153 * mp + 2) div 5 + d - 1;
          doe = yoe * 365 + yoe div 4 - yoe div 100 + doy
      in era * 146097 + doe - 719468)"

definition isoDate :: "string \<Rightarrow> int option" where
  "isoDate s =
     (if length s = 19
         \<and> s ! 4 = CHR ''-'' \<and> s ! 7 = CHR ''-'' \<and> s ! 10 = CHR ''T''
         \<and> s ! 13 = CHR '':'' \<and> s ! 16 = CHR '':''
         \<and> list_all isDigit (take 4 s) \<and> list_all isDigit (take 2 (drop 5 s))
         \<and> list_all isDigit (take 2 (drop 8 s)) \<and> list_all isDigit (take 2 (drop 11 s))
         \<and> list_all isDigit (take 2 (drop 14 s)) \<and> list_all isDigit (take 2 (drop 17 s))
      then
        (let y = int (digitsVal (take 4 s));
             m = int (digitsVal (take 2 (drop 5 s)));
             d = int (digitsVal (take 2 (drop 8 s)));
             hh = int (digitsVal (take 2 (drop 11 s)));
             mi = int (digitsVal (take 2 (drop 14 s)));
             ss = int (digitsVal (take 2 (drop 17 s)))
         in if 1 \<le> m \<and> m \<le> 12 \<and> 1 \<le> d \<and> d \<le> 31 \<and> hh \<le> 23 \<and> mi \<le> 59 \<and> ss \<le> 59
            then Some ((((daysFromCivil y m d * 24 + hh) * 60 + mi) * 60 + ss) * 1000)
            else None)
      else None)"

subsection \<open>Helpers of the program\<close>

text \<open>
  \<^verbatim>\<open>timestampDiff(a, b)\<close>: \<open>0\<close> when either argument is missing; otherwise the
  rounded number of seconds from \<open>a\<close> to \<open>b\<close>, which is \<^verbatim>\<open>NaN\<close> when either date is
  invalid.
\<close>

definition timestampDiff ::
  "(string \<Rightarrow> int option) \<Rightarrow> string option \<Rightarrow> string option \<Rightarrow> int option" where
  "timestampDiff dp a b =
     (if falsy a \<or> falsy b then Some 0
      else (case (dp (replaceSpaceT (orEmpty a)), dp (replaceSpaceT (orEmpty b))) of
              (Some dateA, Some dateB) \<Rightarrow> Some (mathRound (of_int (dateB - dateA) / 1000))
            | _ \<Rightarrow> None))"

text \<open>Comparisons of numbers: every comparison with \<^verbatim>\<open>NaN\<close> is false.\<close>

definition numLt :: "('a::linorder) option \<Rightarrow> 'a option \<Rightarrow> bool" where
  "numLt x y = (case (x, y) of (Some a, Some b) \<Rightarrow> a < b | _ \<Rightarrow> False)"

definition numGt :: "('a::linorder) option \<Rightarrow> 'a option \<Rightarrow> bool" where
  "numGt x y = numLt y x"

definition clampTardiness :: "int option \<Rightarrow> int option \<Rightarrow> int option" where
  "clampTardiness raw d =
     (let MIN' = Some (- 3600); MAX' = d
      in if numLt raw MIN' then MIN' else if numGt raw MAX' then MAX' else raw)"

section \<open>The normalised model\<close>

text \<open>
  The objects built by \<^verbatim>\<open>processData\<close>.  A teacher object carries the fields of
  \<open>participant\<close>; a student object extends them.  The empty object \<^verbatim>\<open>{}\<close> that stands
  for a missing teacher is \<open>None\<close>.  An interval is the text produced by
  \<^verbatim>\<open>toFixed(2)\<close> (\<open>Hours\<close>, of \<^verbatim>\<open>NaN\<close> when the argument is \<open>None\<close>) or the empty
  string (\<open>Blank\<close>).  Fields that are only copied to the display (names, description,
  subject, level, teacher summary, actual duration) are left out.
\<close>

datatype interval = Blank | Hours "rat option"

record participant =
  username :: "string option"
  attended :: bool
  tardiness :: "int option"
  cancelled :: bool

record student = participant +
  st_cancelledBy :: string
  st_cancelledTime :: "string option"
  st_cancelledInterval :: interval
  enrolledTime :: "string option"
  enrolmentInterval :: interval
  rating :: "string option"
  feedback :: "string option"

record cls =
  slug :: string
  scheduledStart :: "string option"
  scheduledDuration :: "int option"
  company :: "string option"
  course_id :: "string option"
  available_seats :: "int option"
  cancelledBy :: string
  cancelledTime :: string
  cancelledByStudent :: bool
  cancelledByTeacher :: bool
  cancelledByAdmin :: bool
  cancelledInterval :: interval
  teacher :: "participant option"
  students :: "student list"

type_synonym model = "(string \<times> cls) list"

text \<open>\<^verbatim>\<open>(timestampDiff(...) / 3600).toFixed(2)\<close>\<close>

definition hoursFixed :: "int option \<Rightarrow> interval" where
  "hoursFixed d = Hours (map_option (\<lambda>x. toFixed2 (of_int x / 3600)) d)"

text \<open>The teacher marker of a participant row: \<^verbatim>\<open>p[9]?.trim().toLowerCase() === 'true'\<close>.\<close>

definition isTeacherRow :: "row \<Rightarrow> bool" where
  "isTeacherRow p = (case col p 9 of None \<Rightarrow> False | Some s \<Rightarrow> toLowerCase (trim s) = ''true'')"

definition mkStudent ::
  "(string \<Rightarrow> int option) \<Rightarrow> string option \<Rightarrow> int option \<Rightarrow> row \<Rightarrow> student" where
  "mkStudent dp start duration pr =
     (let enrolledAt = col pr 22; studentCancelledTime = col pr 14
      in \<lparr> username = col pr 4,
           attended = parseBoolean (col pr 10),
           tardiness = clampTardiness (timestampDiff dp (col pr 3) (col pr 11)) duration,
           cancelled = parseBoolean (col pr 12),
           st_cancelledBy = orEmpty (col pr 13),
           st_cancelledTime = studentCancelledTime,
           st_cancelledInterval =
             (if \<not> falsy studentCancelledTime
              then hoursFixed (timestampDiff dp studentCancelledTime start) else Blank),
           enrolledTime = enrolledAt,
           enrolmentInterval =
             (if \<not> falsy enrolledAt
              then hoursFixed (timestampDiff dp enrolledAt start) else Blank),
           rating = col pr 15,
           feedback = col pr 16 \<rparr>)"

definition mkTeacher ::
  "(string \<Rightarrow> int option) \<Rightarrow> int option \<Rightarrow> row \<Rightarrow> participant" where
  "mkTeacher dp duration teacherRow =
     \<lparr> username = col teacherRow 4,
       attended = parseBoolean (col teacherRow 10),
       tardiness = clampTardiness (timestampDiff dp (col teacherRow 3) (col teacherRow 11)) duration,
       cancelled = parseBoolean (col teacherRow 12) \<rparr>"

text \<open>\<^verbatim>\<open>cls.teacher.username\<close>, also for the empty teacher object.\<close>

definition teacherName :: "cls \<Rightarrow> string option" where
  "teacherName c = (case teacher c of None \<Rightarrow> None | Some t \<Rightarrow> username t)"

text \<open>
  The body of the callback of \<^verbatim>\<open>classesData.forEach\<close> for a class row \<open>cs\<close> whose
  slug \<open>sl\<close> is present: steps 1 to 5 of \<^verbatim>\<open>processData\<close>.
\<close>

definition mkCls :: "(string \<Rightarrow> int option) \<Rightarrow> row list \<Rightarrow> row \<Rightarrow> string \<Rightarrow> cls" where
  "mkCls dp participantsData cs sl =
     (let start = col cs 0;
          duration = timestampDiff dp (col cs 0) (col cs 1);
          cBy = orEmpty (col cs 22);
          cTime = orEmpty (col cs 23);
          participantsRows = filter (\<lambda>p. col p 2 = Some sl) participantsData;
          enrolled = filter (\<lambda>p. \<not> isTeacherRow p) participantsRows;
          studs = map (mkStudent dp start duration) enrolled;
          teach = map_option (mkTeacher dp duration) (find isTeacherRow participantsRows);
          tName = (case teach of None \<Rightarrow> None | Some t \<Rightarrow> username t);
          studentNames = map username studs;
          c0 = \<lparr> slug = sl,
                 scheduledStart = start,
                 scheduledDuration = duration,
                 company = col cs 5,
                 course_id = col cs 29,
                 available_seats = parseInt10 (col cs 10),
                 cancelledBy = cBy,
                 cancelledTime = cTime,
                 cancelledByStudent = False,
                 cancelledByTeacher = False,
                 cancelledByAdmin = False,
                 cancelledInterval = Blank,
                 teacher = teach,
                 students = studs \<rparr>
      in if cBy \<noteq> []
         then (let byStudent = (Some cBy \<in> set studentNames);
                   byTeacher = (Some cBy = tName)
               in c0 \<lparr> cancelledByStudent := byStudent,
                       cancelledByTeacher := byTeacher,
                       cancelledByAdmin := (\<not> byStudent \<and> \<not> byTeacher),
                       cancelledInterval :=
                         (if cTime \<noteq> [] then hoursFixed (timestampDiff dp (Some cTime) start)
                          else Blank) \<rparr>)
         else c0)"

text \<open>\<^verbatim>\<open>output[slug] = cls\<close>: a later row with the same slug overwrites the earlier one.\<close>

fun assign :: "'k \<Rightarrow> 'v \<Rightarrow> ('k \<times> 'v) list \<Rightarrow> ('k \<times> 'v) list" where
  "assign k v [] = [(k, v)]"
| "assign k v ((k', v') # kvs) =
     (if k = k' then (k, v) # kvs else (k', v') # assign k v kvs)"

definition processData :: "(string \<Rightarrow> int option) \<Rightarrow> row list \<Rightarrow> row list \<Rightarrow> model" where
  "processData dp classesData participantsData =
     fold (\<lambda>cs output.
             if falsy (col cs 6) then output
             else assign (orEmpty (col cs 6))
                         (mkCls dp participantsData cs (orEmpty (col cs 6))) output)
          classesData []"

section \<open>Teacher hour count (the compensation report)\<close>

datatype ctype = Private | Group

datatype typeFilter = Both | Only ctype

record settings =
  tardinessLimit :: rat
  cancellationWindow :: rat
  penaliseTardiness :: bool
  payLastMinuteCancellation :: bool
  payStudentNoShow :: bool
  studentNoShowRate :: rat
  classTypeFilter :: typeFilter

text \<open>
  The counters of one (teacher, duration, type) bucket.  The program creates the group
  bucket without a \<^verbatim>\<open>cancelled\<close> field and never reads or writes it there; in the
  model it stays \<open>0\<close>.
\<close>

record bucket =
  n_attended :: nat
  n_noShow :: nat
  n_cancelled :: nat
  n_late :: nat
  n_studentNoShow :: nat

definition zeroBucket :: bucket where
  "zeroBucket = \<lparr> n_attended = 0, n_noShow = 0, n_cancelled = 0, n_late = 0, n_studentNoShow = 0 \<rparr>"

type_synonym durationBuckets = "(int option \<times> (bucket \<times> bucket)) list"

type_synonym teacherReports = "(string \<times> durationBuckets) list"

text \<open>\<^verbatim>\<open>cls.available_seats === 1 ? 'private' : 'group'\<close>\<close>

definition classType :: "cls \<Rightarrow> ctype" where
  "classType c = (if available_seats c = Some 1 then Private else Group)"

text \<open>\<^verbatim>\<open>Math.round(seconds / 60)\<close>\<close>

definition minutesOf :: "int option \<Rightarrow> int option" where
  "minutesOf d = map_option (\<lambda>x. mathRound (of_int x / 60)) d"

definition durationMin :: "cls \<Rightarrow> int option" where
  "durationMin c = minutesOf (scheduledDuration c)"

text \<open>
  Step 1a of \<^verbatim>\<open>src/main.js\<close>.  The loop is \<^verbatim>\<open>cls.students.forEach\<close>; the
  \<^verbatim>\<open>return\<close> after the increment leaves the callback of the current student only, so
  the iteration goes on with the next student.
\<close>

definition lateCancellation ::
  "(string \<Rightarrow> int option) \<Rightarrow> settings \<Rightarrow> cls \<Rightarrow> string \<Rightarrow> student \<Rightarrow> bool" where
  "lateCancellation dp st c tName s =
     (cancelled s \<and> st_cancelledBy s \<noteq> tName \<and>
      (let diffHr = map_option (\<lambda>x. (of_int x :: rat) / 3600)
                      (timestampDiff dp (scheduledStart c) (st_cancelledTime s))
       in numLt diffHr (Some (cancellationWindow st))))"

definition creditCancellations ::
  "(string \<Rightarrow> int option) \<Rightarrow> settings \<Rightarrow> cls \<Rightarrow> string \<Rightarrow> bucket \<Rightarrow> bucket" where
  "creditCancellations dp st c tName b =
     fold (\<lambda>s b'. if lateCancellation dp st c tName s
                   then b' \<lparr> n_cancelled := n_cancelled b' + 1 \<rparr> else b')
          (students c) b"

text \<open>
  The same step in the earlier variant of the function, \<^verbatim>\<open>src/unnamed/part_000\<close>: a
  \<^verbatim>\<open>for ... of\<close> loop left by \<^verbatim>\<open>break\<close>.  It reads the properties
  \<^verbatim>\<open>'cancelled by'\<close> and \<^verbatim>\<open>'cancelled time'\<close>, which no student object has, so both
  are \<^verbatim>\<open>undefined\<close>.
\<close>

fun creditFirstCancellation ::
  "(string \<Rightarrow> int option) \<Rightarrow> settings \<Rightarrow> cls \<Rightarrow> string \<Rightarrow> student list \<Rightarrow> bucket \<Rightarrow> bucket" where
  "creditFirstCancellation dp st c t [] b = b"
| "creditFirstCancellation dp st c t (s # ss) b =
     (if cancelled s \<and> (None :: string option) \<noteq> Some t \<and>
         numLt (map_option (\<lambda>x. (of_int x :: rat) / 3600)
                  (timestampDiff dp (scheduledStart c) None))
               (Some (cancellationWindow st))
      then b \<lparr> n_cancelled := n_cancelled b + 1 \<rparr>
      else creditFirstCancellation dp st c t ss b)"

text \<open>Steps 1a to 1c for one class with teacher object \<open>t\<close> of name \<open>tName\<close>.\<close>

definition accumulate ::
  "(string \<Rightarrow> int option) \<Rightarrow> settings \<Rightarrow> cls \<Rightarrow> participant \<Rightarrow> string \<Rightarrow> bucket \<Rightarrow> bucket" where
  "accumulate dp st c t tName bucket0 =
     (let type = classType c;
          teacherAttended = attended t;
          teacherCancelled = cancelled t;
          teacherTardinessMin = minutesOf (tardiness t);
          bucket1 = (if type = Private \<and> payLastMinuteCancellation st
                     then creditCancellations dp st c tName bucket0 else bucket0);
          bucket2 = (if teacherAttended
                     then (let b = bucket1 \<lparr> n_attended := n_attended bucket1 + 1 \<rparr>
                           in if penaliseTardiness st \<and>
                                 numGt (map_option of_int teacherTardinessMin)
                                       (Some (tardinessLimit st))
                              then b \<lparr> n_late := n_late b + 1 \<rparr> else b)
                     else bucket1 \<lparr> n_noShow := n_noShow bucket1 + 1 \<rparr>)
      in if teacherAttended \<and> \<not> teacherCancelled \<and> length (students c) > 0 \<and>
            list_all (\<lambda>s. \<not> attended s) (students c)
         then bucket2 \<lparr> n_studentNoShow := n_studentNoShow bucket2 + 1 \<rparr>
         else bucket2)"

definition bucketsAt :: "durationBuckets \<Rightarrow> int option \<Rightarrow> bucket \<times> bucket" where
  "bucketsAt durs d = (case map_of durs d of None \<Rightarrow> (zeroBucket, zeroBucket) | Some pg \<Rightarrow> pg)"

text \<open>The callback of the aggregation loop, without the update of the set of durations.\<close>

definition aggregateStep ::
  "(string \<Rightarrow> int option) \<Rightarrow> settings \<Rightarrow> cls \<Rightarrow> teacherReports \<Rightarrow> teacherReports" where
  "aggregateStep dp st c reports =
     (case teacher c of
        None \<Rightarrow> reports
      | Some t \<Rightarrow>
          (case username t of
             None \<Rightarrow> reports
           | Some tName \<Rightarrow>
               if tName = [] then reports
               else if classTypeFilter st \<noteq> Both \<and> classTypeFilter st \<noteq> Only (classType c)
               then reports
               else (let durs = (case map_of reports tName of None \<Rightarrow> [] | Some ds \<Rightarrow> ds);
                         pg = bucketsAt durs (durationMin c);
                         pg' = (if classType c = Private
                                then (accumulate dp st c t tName (fst pg), snd pg)
                                else (fst pg, accumulate dp st c t tName (snd pg)))
                     in assign tName (assign (durationMin c) pg' durs) reports)))"

definition aggregate :: "(string \<Rightarrow> int option) \<Rightarrow> settings \<Rightarrow> model \<Rightarrow> teacherReports" where
  "aggregate dp st processedData = fold (aggregateStep dp st) (map snd processedData) []"

text \<open>
  \<^verbatim>\<open>durationsSet\<close> receives the duration of every class, before the class is
  tested for a teacher or a type; a set enumerates in insertion order.  The sort uses
  the comparator \<^verbatim>\<open>a - b\<close>: ascending on numbers.  With \<^verbatim>\<open>NaN\<close> among the elements the
  comparator is inconsistent and the host may return any permutation; the insertion
  sort below is one of them.
\<close>

definition addOnce :: "'a \<Rightarrow> 'a list \<Rightarrow> 'a list" where
  "addOnce x xs = (if x \<in> set xs then xs else xs @ [x])"




text \<open>
  The output is kept as rows of cells rather than as joined text: a cell is a text or
  a number, a header cell names its column.
\<close>

datatype cell = Text string | Number "rat option"



text \<open>The bucket read by \<^verbatim>\<open>pushType\<close>: all counters are \<open>0\<close> when there is none.\<close>

definition bucketFor :: "durationBuckets \<Rightarrow> int option \<Rightarrow> ctype \<Rightarrow> bucket" where
  "bucketFor durs d type =
     (case map_of durs d of
        None \<Rightarrow> zeroBucket
      | Some pg \<Rightarrow> (if type = Private then fst pg else snd pg))"

definition netCount :: "settings \<Rightarrow> ctype \<Rightarrow> bucket \<Rightarrow> rat" where
  "netCount st type b =
     (let studentNoShowFrac = (if payStudentNoShow st then studentNoShowRate st / 100 else 0);
          baseCount0 = of_nat (n_attended b);
          baseCount1 = (if penaliseTardiness st then baseCount0 - of_nat (n_late b)
                        else baseCount0);
          baseCount = (if type = Private \<and> payLastMinuteCancellation st
                       then baseCount1 + of_nat (n_cancelled b) else baseCount1);
          deduction = of_nat (n_studentNoShow b) * (1 - studentNoShowFrac)
      in toFixed2 (baseCount - deduction))"

definition natCell :: "nat \<Rightarrow> cell" where
  "natCell n = Number (Some (of_nat n))"

definition bucketCells :: "settings \<Rightarrow> bool \<Rightarrow> ctype \<Rightarrow> bucket \<Rightarrow> cell list" where
  "bucketCells st simpleReport type b =
     (if simpleReport then [Number (Some (netCount st type b))]
      else [natCell (n_attended b)]
           @ (if type = Private then [natCell (n_cancelled b)] else [])
           @ [natCell (n_noShow b), natCell (n_studentNoShow b), natCell (n_late b),
              Number (Some (netCount st type b))])"

text \<open>\<^verbatim>\<open>total += netCount * d\<close>, where the duration \<open>d\<close> may be \<^verbatim>\<open>NaN\<close>.\<close>

definition addMinutes :: "rat option \<Rightarrow> rat \<Rightarrow> int option \<Rightarrow> rat option" where
  "addMinutes totalMin n d =
     (case (totalMin, d) of (Some t, Some m) \<Rightarrow> Some (t + n * of_int m) | _ \<Rightarrow> None)"

definition pushType ::
  "settings \<Rightarrow> bool \<Rightarrow> durationBuckets \<Rightarrow> int option list \<Rightarrow> ctype \<Rightarrow> cell list" where
  "pushType st simpleReport durs durations type =
     (case fold (\<lambda>d (row, totalCount, totalMin).
                   (let b = bucketFor durs d type
                    in (row @ bucketCells st simpleReport type b,
                        totalCount + netCount st type b,
                        addMinutes totalMin (netCount st type b) d)))
                durations ([], 0, Some 0) of
        (row, totalCount, totalMin) \<Rightarrow> row @ [Number (Some totalCount), Number totalMin])"

definition teacherRow ::
  "settings \<Rightarrow> bool \<Rightarrow> int option list \<Rightarrow> string \<times> durationBuckets \<Rightarrow> cell list" where
  "teacherRow st simpleReport durations td =
     Text (fst td) #
     (case classTypeFilter st of
        Both \<Rightarrow> pushType st simpleReport (snd td) durations Private
                @ pushType st simpleReport (snd td) durations Group
      | Only type \<Rightarrow> pushType st simpleReport (snd td) durations type)"


section \<open>Teacher performance reports: the selection of classes\<close>




section \<open>Cross-course overview\<close>

text \<open>\<^verbatim>\<open>cls['course_id'] || 'NO_ID'\<close>\<close>

definition courseKey :: "cls \<Rightarrow> string" where
  "courseKey c = (if falsy (course_id c) then ''NO_ID'' else orEmpty (course_id c))"

definition groupByCourse :: "model \<Rightarrow> (string \<times> cls list) list" where
  "groupByCourse processedData =
     fold (\<lambda>c byCourse.
             assign (courseKey c)
                    ((case map_of byCourse (courseKey c) of None \<Rightarrow> [] | Some cl \<Rightarrow> cl) @ [c])
                    byCourse)
          (map snd processedData) []"

text \<open>
  The classes of a course are sorted with the comparator
  \<^verbatim>\<open>new Date(a.scheduledStart) - new Date(b.scheduledStart)\<close>; the sort of the host is
  stable.  An invalid date makes the comparator inconsistent, and then the order is
  the host's choice among the permutations.
\<close>

definition startTime :: "(string \<Rightarrow> int option) \<Rightarrow> cls \<Rightarrow> int option" where
  "startTime dp c = (case scheduledStart c of None \<Rightarrow> None | Some s \<Rightarrow> dp s)"

fun insertByStart :: "(string \<Rightarrow> int option) \<Rightarrow> cls \<Rightarrow> cls list \<Rightarrow> cls list" where
  "insertByStart dp c [] = [c]"
| "insertByStart dp c (y # ys) =
     (if numLt (startTime dp y) (startTime dp c) then y # insertByStart dp c ys
      else c # y # ys)"

definition sortByStart :: "(string \<Rightarrow> int option) \<Rightarrow> cls list \<Rightarrow> cls list" where
  "sortByStart dp classes = foldr (insertByStart dp) classes []"

text \<open>\<^verbatim>\<open>unique(arr) = [...new Set(arr)]\<close>\<close>

definition unique :: "'a list \<Rightarrow> 'a list" where
  "unique arr = fold addOnce arr []"

text \<open>
  The nested loops over the classes of a course and their students: the list of all
  student user names, the number of attended participations and the number of
  participations.
\<close>

definition countStudent ::
  "student \<Rightarrow> string option list \<times> nat \<times> nat \<Rightarrow> string option list \<times> nat \<times> nat" where
  "countStudent student acc =
     (case acc of
        (allStudentUsernames, attendedCount, totalStudentParticipations) \<Rightarrow>
          (allStudentUsernames @ [username student],
           (if attended student then attendedCount + 1 else attendedCount),
           totalStudentParticipations + 1))"

definition countParticipations :: "cls list \<Rightarrow> string option list \<times> nat \<times> nat" where
  "countParticipations classes =
     fold (\<lambda>c acc. fold countStudent (students c) acc) classes ([], 0, 0)"

text \<open>
  \<^verbatim>\<open>total ? Math.round((attended / total) * 100) : ''\<close>; the empty text is \<open>None\<close>.
\<close>

definition attendanceRate :: "nat \<Rightarrow> nat \<Rightarrow> int option" where
  "attendanceRate attendedCount totalStudentParticipations =
     (if totalStudentParticipations \<noteq> 0
      then Some (mathRound ((of_nat attendedCount / of_nat totalStudentParticipations) * 100))
      else None)"

text \<open>
  A row of the overview.  The columns level, subject and description are left out; an
  empty seats cell is \<open>None\<close>.  The list of classes of a course key is never empty, so
  its first and last class exist.
\<close>

record courseRow =
  r_courseId :: string
  r_teachers :: "string list"
  r_startDate :: "string option"
  r_endDate :: "string option"
  r_classCount :: nat
  r_seats :: "int option"
  r_studentsEnrolled :: nat
  r_attendanceRate :: "int option"

definition courseRowOf :: "(string \<Rightarrow> int option) \<Rightarrow> string \<times> cls list \<Rightarrow> courseRow" where
  "courseRowOf dp kc =
     (let classes = sortByStart dp (snd kc);
          firstClass = hd classes;
          teachers = unique (map orEmpty (filter (\<lambda>u. \<not> falsy u) (map teacherName classes)))
      in (case countParticipations classes of
            (allStudentUsernames, attendedCount, totalStudentParticipations) \<Rightarrow>
              \<lparr> r_courseId = fst kc,
                r_teachers = teachers,
                r_startDate = scheduledStart (hd classes),
                r_endDate = scheduledStart (last classes),
                r_classCount = length classes,
                r_seats = (if available_seats firstClass = Some 0 then None
                           else available_seats firstClass),
                r_studentsEnrolled = length (unique allStudentUsernames),
                r_attendanceRate = attendanceRate attendedCount totalStudentParticipations \<rparr>))"

definition buildAllCoursesOverviewCSV :: "(string \<Rightarrow> int option) \<Rightarrow> model \<Rightarrow> courseRow list" where
  "buildAllCoursesOverviewCSV dp processedData = map (courseRowOf dp) (groupByCourse processedData)"

section \<open>Student report\<close>
















section \<open>Overview tallies\<close>










section \<open>Properties in the words of the specification\<close>

definition exactlyOne :: "bool \<Rightarrow> bool \<Rightarrow> bool \<Rightarrow> bool" where
  "exactlyOne a b c = ((a \<and> \<not> b \<and> \<not> c) \<or> (\<not> a \<and> b \<and> \<not> c) \<or> (\<not> a \<and> \<not> b \<and> c))"

text \<open>The tardiness of a participant lies in \<open>[-3600, scheduledDuration]\<close>.\<close>

definition tardinessInRange :: "cls \<Rightarrow> int option \<Rightarrow> bool" where
  "tardinessInRange c tard =
     (case (tard, scheduledDuration c) of
        (Some t, Some d) \<Rightarrow> - 3600 \<le> t \<and> t \<le> d
      | _ \<Rightarrow> False)"

text \<open>All participants of a class: the teacher, if any, and the students.\<close>

definition tardinesses :: "cls \<Rightarrow> int option list" where
  "tardinesses c =
     (case teacher c of None \<Rightarrow> [] | Some t \<Rightarrow> [tardiness t]) @ map tardiness (students c)"

text \<open>The bucket of a teacher, a duration and a class type in the aggregated reports.\<close>

definition bucketOf :: "teacherReports \<Rightarrow> string \<Rightarrow> int option \<Rightarrow> ctype \<Rightarrow> bucket" where
  "bucketOf reports tName d type =
     bucketFor (case map_of reports tName of None \<Rightarrow> [] | Some durs \<Rightarrow> durs) d type"



text \<open>
  The condition of the specification for a student no-show, with the teacher's own
  cancelled flag in the place of the cancellation of the session.
\<close>

definition studentNoShowCase :: "cls \<Rightarrow> participant \<Rightarrow> bool" where
  "studentNoShowCase c t =
     (attended t \<and> \<not> cancelled t \<and> students c \<noteq> [] \<and> (\<forall>s\<in>set (students c). \<not> attended s))"

text \<open>The participations of the students in a list of sessions, and those attended.\<close>

definition totalParticipations :: "cls list \<Rightarrow> nat" where
  "totalParticipations sessions = sum_list (map (\<lambda>c. length (students c)) sessions)"

definition attendedParticipations :: "cls list \<Rightarrow> nat" where
  "attendedParticipations sessions =
     sum_list (map (\<lambda>c. length (filter attended (students c))) sessions)"




section \<open>Example extracts\<close>

text \<open>
  Rows with the columns the program reads: a class row has 30 columns, a participant
  row 15 (rating, feedback and enrolment are absent).
\<close>

definition classRow ::
  "string \<Rightarrow> string \<Rightarrow> string \<Rightarrow> string \<Rightarrow> string \<Rightarrow> string \<Rightarrow> string \<Rightarrow> string \<Rightarrow> row" where
  "classRow start finish firm sl seats cBy cTime course =
     [start, finish, [], [], [], firm, sl, [], [], [], seats,
      [], [], [], [], [], [], [], [], [], [], [],
      cBy, cTime, [], [], [], [], [], course]"

definition participantRow ::
  "string \<Rightarrow> string \<Rightarrow> string \<Rightarrow> string \<Rightarrow> string \<Rightarrow> string \<Rightarrow> string \<Rightarrow> string \<Rightarrow> string \<Rightarrow> row" where
  "participantRow sl scheduledJoin actualJoin user isTeacher att canc cBy cTime =
     [[], [], sl, scheduledJoin, user, [], [], [], [], isTeacher, att, actualJoin, canc, cBy, cTime]"

text \<open>
  A private class of one hour; the teacher joins 400 seconds late, the student neither
  attends nor cancels.
\<close>

definition lessonClasses :: "row list" where
  "lessonClasses =
     [classRow ''2023-01-15 10:00:00'' ''2023-01-15 11:00:00'' ''acme'' ''c1'' ''1'' [] [] ''k1'']"

definition lessonParticipants :: "row list" where
  "lessonParticipants =
     [participantRow ''c1'' ''2023-01-15 10:00:00'' ''2023-01-15 10:06:40'' ''tom'' ''true'' ''true''
        ''false'' [] [],
      participantRow ''c1'' ''2023-01-15 10:00:00'' [] ''sue'' ''false'' ''false'' ''false'' [] []]"

text \<open>A class whose end lies two hours before its start.\<close>

definition backwardClasses :: "row list" where
  "backwardClasses =
     [classRow ''2023-01-15 10:00:00'' ''2023-01-15 08:00:00'' ''acme'' ''c1'' ''1'' [] [] ''k1'']"

definition backwardParticipants :: "row list" where
  "backwardParticipants =
     [participantRow ''c1'' ''2023-01-15 10:00:00'' ''2023-01-15 10:05:00'' ''sue'' ''false'' ''true''
        ''false'' [] []]"

text \<open>
  A class cancelled by \<^verbatim>\<open>bob\<close>, who is its teacher and is also enrolled in it as a
  student.
\<close>

definition bobClasses :: "row list" where
  "bobClasses =
     [classRow ''2023-01-15 10:00:00'' ''2023-01-15 11:00:00'' ''acme'' ''c1'' ''4'' ''bob''
        ''2023-01-14 10:00:00'' ''k1'']"

definition bobParticipants :: "row list" where
  "bobParticipants =
     [participantRow ''c1'' ''2023-01-15 10:00:00'' [] ''bob'' ''true'' ''false'' ''true'' [] [],
      participantRow ''c1'' ''2023-01-15 10:00:00'' [] ''bob'' ''false'' ''false'' ''true'' [] []]"

text \<open>The same class cancelled by a student who is not the teacher.\<close>

definition annParticipants :: "row list" where
  "annParticipants =
     [participantRow ''c1'' ''2023-01-15 10:00:00'' [] ''tom'' ''true'' ''false'' ''true'' [] [],
      participantRow ''c1'' ''2023-01-15 10:00:00'' [] ''bob'' ''false'' ''false'' ''true'' [] []]"

text \<open>
  A private class with two students who both cancelled on the day of the class, one
  hour and half an hour before its start; the teacher attended.
\<close>

definition twoCancelParticipants :: "row list" where
  "twoCancelParticipants =
     [participantRow ''c1'' ''2023-01-15 10:00:00'' ''2023-01-15 10:00:00'' ''tom'' ''true'' ''true''
        ''false'' [] [],
      participantRow ''c1'' ''2023-01-15 10:00:00'' [] ''sue'' ''false'' ''false'' ''true'' ''sue''
        ''2023-01-15 09:00:00'',
      participantRow ''c1'' ''2023-01-15 10:00:00'' [] ''ann'' ''false'' ''false'' ''true'' ''ann''
        ''2023-01-15 09:30:00'']"

text \<open>
  A private class cancelled by the office; the row of its teacher is marked attended and
  not cancelled, the student did not attend.
\<close>

definition officeClasses :: "row list" where
  "officeClasses =
     [classRow ''2023-01-15 10:00:00'' ''2023-01-15 11:00:00'' ''acme'' ''c1'' ''1'' ''office''
        ''2023-01-15 09:55:00'' ''k1'']"






definition paySettings :: settings where
  "paySettings =
     \<lparr> tardinessLimit = 5, cancellationWindow = 24, penaliseTardiness = True,
       payLastMinuteCancellation = True, payStudentNoShow = True, studentNoShowRate = 50,
       classTypeFilter = Both \<rparr>"

definition twoCancelModel :: model where
  "twoCancelModel = processData isoDate lessonClasses twoCancelParticipants"

definition officeModel :: model where
  "officeModel = processData isoDate officeClasses lessonParticipants"

definition lessonModel :: model where
  "lessonModel = processData isoDate lessonClasses lessonParticipants"

definition backwardModel :: model where
  "backwardModel = processData isoDate backwardClasses backwardParticipants"

definition bobModel :: model where
  "bobModel = processData isoDate bobClasses bobParticipants"

definition annModel :: model where
  "annModel = processData isoDate bobClasses annParticipants"



section \<open>Lemmas about the program\<close>

subsection \<open>The normaliser\<close>

lemma set_assign_subset: "set (assign k v xs) \<subseteq> insert (k, v) (set xs)"
  by (induction xs) (auto split: if_splits)

lemma fold_assign_invariant:
  assumes "\<forall>kv\<in>set acc. P kv"
    and "\<And>x. x \<in> set xs \<Longrightarrow> \<not> g x \<Longrightarrow> P (key x, val x)"
  shows "\<forall>kv\<in>set (fold (\<lambda>x out. if g x then out else assign (key x) (val x) out) xs acc). P kv"
  using assms
proof (induction xs arbitrary: acc)
  case Nil
  then show ?case by simp
next
  case (Cons x xs)
  have "\<forall>kv\<in>set (if g x then acc else assign (key x) (val x) acc). P kv"
    using Cons.prems set_assign_subset [of "key x" "val x" acc] by auto
  then show ?case using Cons.IH Cons.prems(2) by simp
qed

text \<open>Every session of the model is built from a class row that has a slug.\<close>

lemma processData_session:
  assumes "(sl, c) \<in> set (processData dp classesData participantsData)"
  shows "\<exists>cs\<in>set classesData. \<not> falsy (col cs 6) \<and> sl = orEmpty (col cs 6)
            \<and> c = mkCls dp participantsData cs sl"
proof -
  let ?P = "\<lambda>kv. \<exists>cs\<in>set classesData. \<not> falsy (col cs 6) \<and> fst kv = orEmpty (col cs 6)
            \<and> snd kv = mkCls dp participantsData cs (fst kv)"
  have "\<forall>kv\<in>set (processData dp classesData participantsData). ?P kv"
    unfolding processData_def by (rule fold_assign_invariant) auto
  then show ?thesis using assms by fastforce
qed

lemma mkCls_fields:
  "slug (mkCls dp pd cs sl) = sl"
  "scheduledStart (mkCls dp pd cs sl) = col cs 0"
  "scheduledDuration (mkCls dp pd cs sl) = timestampDiff dp (col cs 0) (col cs 1)"
  "cancelledBy (mkCls dp pd cs sl) = orEmpty (col cs 22)"
  "teacher (mkCls dp pd cs sl) =
     map_option (mkTeacher dp (timestampDiff dp (col cs 0) (col cs 1)))
       (find isTeacherRow (filter (\<lambda>p. col p 2 = Some sl) pd))"
  "students (mkCls dp pd cs sl) =
     map (mkStudent dp (col cs 0) (timestampDiff dp (col cs 0) (col cs 1)))
       (filter (\<lambda>p. \<not> isTeacherRow p) (filter (\<lambda>p. col p 2 = Some sl) pd))"
  by (simp_all add: mkCls_def Let_def)

lemma mkCls_flags:
  assumes "cancelledBy (mkCls dp pd cs sl) \<noteq> []"
  shows "cancelledByStudent (mkCls dp pd cs sl) =
           (Some (cancelledBy (mkCls dp pd cs sl)) \<in> set (map username (students (mkCls dp pd cs sl))))"
    and "cancelledByTeacher (mkCls dp pd cs sl) =
           (teacherName (mkCls dp pd cs sl) = Some (cancelledBy (mkCls dp pd cs sl)))"
    and "cancelledByAdmin (mkCls dp pd cs sl) =
           (\<not> cancelledByStudent (mkCls dp pd cs sl) \<and> \<not> cancelledByTeacher (mkCls dp pd cs sl))"
  using assms by (auto simp add: mkCls_def Let_def teacherName_def)

lemma clamp_range:
  assumes "clampTardiness raw (Some d) = Some t" "- 3600 \<le> d"
  shows "- 3600 \<le> t \<and> t \<le> d"
  using assms
  by (auto simp: clampTardiness_def numLt_def numGt_def Let_def split: option.splits if_splits)

lemma mkCls_tardinesses:
  assumes "tard \<in> set (tardinesses (mkCls dp pd cs sl))"
  shows "\<exists>raw. tard = clampTardiness raw (scheduledDuration (mkCls dp pd cs sl))"
  using assms
  by (auto simp add: tardinesses_def mkCls_fields mkTeacher_def mkStudent_def Let_def
      split: option.splits)

subsection \<open>Teacher hour count\<close>

lemma assign_update: "assign k v xs = AList.update k v xs"
  by (induction xs) auto

lemma map_of_assign: "map_of (assign k v xs) = (map_of xs)(k \<mapsto> v)"
  by (simp add: assign_update update_conv')

lemma bucketFor_bucketsAt:
  "bucketFor durs d type = (if type = Private then fst (bucketsAt durs d) else snd (bucketsAt durs d))"
  by (simp add: bucketFor_def bucketsAt_def zeroBucket_def split: option.splits)

lemma fold_preserves:
  assumes "\<And>x b. f (g x b) = f b"
  shows "f (fold g xs b) = f b"
  by (induction xs arbitrary: b) (simp_all add: assms)

lemma creditCancellations_other:
  "n_studentNoShow (creditCancellations dp st c tName b) = n_studentNoShow b"
  "n_attended (creditCancellations dp st c tName b) = n_attended b"
  "n_noShow (creditCancellations dp st c tName b) = n_noShow b"
  "n_late (creditCancellations dp st c tName b) = n_late b"
  unfolding creditCancellations_def by (rule fold_preserves, simp)+

lemma creditCancellations_count:
  "n_cancelled (creditCancellations dp st c tName b) =
     n_cancelled b + length (filter (lateCancellation dp st c tName) (students c))"
proof -
  have "n_cancelled (fold (\<lambda>s b'. if lateCancellation dp st c tName s
                   then b' \<lparr> n_cancelled := n_cancelled b' + 1 \<rparr> else b') ss b)
        = n_cancelled b + length (filter (lateCancellation dp st c tName) ss)" for ss b
    by (induction ss arbitrary: b) simp_all
  then show ?thesis by (simp add: creditCancellations_def)
qed

lemma accumulate_studentNoShow:
  "n_studentNoShow (accumulate dp st c t tName b) =
     n_studentNoShow b + (if studentNoShowCase c t then 1 else 0)"
  by (simp add: accumulate_def Let_def studentNoShowCase_def creditCancellations_other
      list_all_iff)

lemma aggregateStep_bucket:
  assumes "teacher c = Some t" "username t = Some tName" "tName \<noteq> []"
    and "classTypeFilter st = Both \<or> classTypeFilter st = Only (classType c)"
  shows "bucketOf (aggregateStep dp st c reports) tName (durationMin c) (classType c) =
           accumulate dp st c t tName (bucketOf reports tName (durationMin c) (classType c))"
  using assms
  by (auto simp add: aggregateStep_def bucketOf_def Let_def map_of_assign bucketFor_bucketsAt
      bucketsAt_def split: option.splits)








subsection \<open>Sessions without a teacher, durations, overview tallies\<close>










subsection \<open>Cross-course overview\<close>


text \<open>The groups of \<open>groupByCourse\<close>: each holds the sessions of its key, in model order.\<close>

lemma groupByCourse_snoc:
  "groupByCourse (xs @ [kc]) =
     assign (courseKey (snd kc))
       ((case map_of (groupByCourse xs) (courseKey (snd kc)) of None \<Rightarrow> [] | Some cl \<Rightarrow> cl) @ [snd kc])
       (groupByCourse xs)"
  by (simp add: groupByCourse_def)



lemma countStudents_fold:
  "fold countStudent ss (ns, a, t)
   = (ns @ map username ss, a + length (filter attended ss), t + length ss)"
  by (induction ss arbitrary: ns a t) (simp_all add: countStudent_def)

lemma countParticipations_fold:
  "fold (\<lambda>c acc. fold countStudent (students c) acc) classes (ns, a, t)
   = (ns @ concat (map (\<lambda>c. map username (students c)) classes),
      a + attendedParticipations classes, t + totalParticipations classes)"
  by (induction classes arbitrary: ns a t)
     (simp_all add: countStudents_fold attendedParticipations_def totalParticipations_def)

lemma countParticipations_eq:
  "countParticipations classes =
     (concat (map (\<lambda>c. map username (students c)) classes),
      attendedParticipations classes, totalParticipations classes)"
  by (simp add: countParticipations_def countParticipations_fold)

text \<open>The overview has one row per course key, in the order of first appearance.\<close>

lemma unique_snoc: "unique (xs @ [x]) = addOnce x (unique xs)"
  by (simp add: unique_def)

lemma assign_keys: "map fst (assign k v al) = addOnce k (map fst al)"
  by (simp add: assign_update update_keys addOnce_def)

lemma groupByCourse_keys:
  "map fst (groupByCourse xs) = unique (map (\<lambda>kc. courseKey (snd kc)) xs)"
proof (induction xs rule: rev_induct)
  case Nil
  then show ?case by (simp add: groupByCourse_def unique_def)
next
  case (snoc kc xs)
  then show ?case by (simp add: groupByCourse_snoc assign_keys unique_snoc)
qed

lemma overview_course_ids:
  "map r_courseId (buildAllCoursesOverviewCSV dp processedData)
     = unique (map (\<lambda>kc. courseKey (snd kc)) processedData)"
proof -
  have "r_courseId (courseRowOf dp kc) = fst kc" for kc
    by (simp add: courseRowOf_def Let_def countParticipations_eq)
  then show ?thesis
    by (simp add: buildAllCoursesOverviewCSV_def groupByCourse_keys [symmetric] comp_def)
qed







subsection \<open>Student report\<close>












text \<open>
  Every session of a model built by the normaliser has a start, since its class row has a
  slug in column 6; for such models the student report is always produced.
\<close>

lemma processData_has_start:
  assumes "(sl, c) \<in> set (processData dp classesData participantsData)"
  shows "scheduledStart c \<noteq> None"
proof -
  obtain cs where f: "\<not> falsy (col cs 6)" and c: "c = mkCls dp participantsData cs sl"
    using processData_session [OF assms] by blast
  from f have "6 < length cs" by (simp add: falsy_def col_def split: if_splits)
  then have "cs \<noteq> []" by auto
  then show ?thesis by (simp add: c mkCls_fields col_def)
qed



section \<open>The examples, evaluated\<close>

lemma lessonModel_value:
  "lessonModel =
     [(''c1'',
       \<lparr> slug = ''c1'', scheduledStart = Some ''2023-01-15 10:00:00'',
         scheduledDuration = Some 3600, company = Some ''acme'', course_id = Some ''k1'',
         available_seats = Some 1, cancelledBy = [], cancelledTime = [],
         cancelledByStudent = False, cancelledByTeacher = False, cancelledByAdmin = False,
         cancelledInterval = Blank,
         teacher = Some \<lparr> username = Some ''tom'', attended = True, tardiness = Some 400,
                          cancelled = False \<rparr>,
         students =
           [\<lparr> username = Some ''sue'', attended = False, tardiness = Some 0,
              cancelled = False, st_cancelledBy = [], st_cancelledTime = Some [],
              st_cancelledInterval = Blank, enrolledTime = None, enrolmentInterval = Blank,
              rating = None, feedback = None \<rparr>] \<rparr>)]"
  by code_simp

lemma backwardModel_value:
  "backwardModel =
     [(''c1'',
       \<lparr> slug = ''c1'', scheduledStart = Some ''2023-01-15 10:00:00'',
         scheduledDuration = Some (- 7200), company = Some ''acme'', course_id = Some ''k1'',
         available_seats = Some 1, cancelledBy = [], cancelledTime = [],
         cancelledByStudent = False, cancelledByTeacher = False, cancelledByAdmin = False,
         cancelledInterval = Blank,
         teacher = None,
         students =
           [\<lparr> username = Some ''sue'', attended = True, tardiness = Some (- 7200),
              cancelled = False, st_cancelledBy = [], st_cancelledTime = Some [],
              st_cancelledInterval = Blank, enrolledTime = None, enrolmentInterval = Blank,
              rating = None, feedback = None \<rparr>] \<rparr>)]"
  by code_simp

lemma bobModel_value:
  "bobModel =
     [(''c1'',
       \<lparr> slug = ''c1'', scheduledStart = Some ''2023-01-15 10:00:00'',
         scheduledDuration = Some 3600, company = Some ''acme'', course_id = Some ''k1'',
         available_seats = Some 4, cancelledBy = ''bob'', cancelledTime = ''2023-01-14 10:00:00'',
         cancelledByStudent = True, cancelledByTeacher = True, cancelledByAdmin = False,
         cancelledInterval = Hours (Some 24),
         teacher = Some \<lparr> username = Some ''bob'', attended = False, tardiness = Some 0,
                          cancelled = True \<rparr>,
         students =
           [\<lparr> username = Some ''bob'', attended = False, tardiness = Some 0,
              cancelled = True, st_cancelledBy = [], st_cancelledTime = Some [],
              st_cancelledInterval = Blank, enrolledTime = None, enrolmentInterval = Blank,
              rating = None, feedback = None \<rparr>] \<rparr>)]"
  by code_simp

lemma annModel_value:
  "annModel =
     [(''c1'',
       \<lparr> slug = ''c1'', scheduledStart = Some ''2023-01-15 10:00:00'',
         scheduledDuration = Some 3600, company = Some ''acme'', course_id = Some ''k1'',
         available_seats = Some 4, cancelledBy = ''bob'', cancelledTime = ''2023-01-14 10:00:00'',
         cancelledByStudent = True, cancelledByTeacher = False, cancelledByAdmin = False,
         cancelledInterval = Hours (Some 24),
         teacher = Some \<lparr> username = Some ''tom'', attended = False, tardiness = Some 0,
                          cancelled = True \<rparr>,
         students =
           [\<lparr> username = Some ''bob'', attended = False, tardiness = Some 0,
              cancelled = True, st_cancelledBy = [], st_cancelledTime = Some [],
              st_cancelledInterval = Blank, enrolledTime = None, enrolmentInterval = Blank,
              rating = None, feedback = None \<rparr>] \<rparr>)]"
  by code_simp

lemma twoCancelModel_value:
  "twoCancelModel =
     [(''c1'',
       \<lparr> slug = ''c1'', scheduledStart = Some ''2023-01-15 10:00:00'',
         scheduledDuration = Some 3600, company = Some ''acme'', course_id = Some ''k1'',
         available_seats = Some 1, cancelledBy = [], cancelledTime = [],
         cancelledByStudent = False, cancelledByTeacher = False, cancelledByAdmin = False,
         cancelledInterval = Blank,
         teacher = Some \<lparr> username = Some ''tom'', attended = True, tardiness = Some 0,
                          cancelled = False \<rparr>,
         students =
           [\<lparr> username = Some ''sue'', attended = False, tardiness = Some 0,
              cancelled = True, st_cancelledBy = ''sue'',
              st_cancelledTime = Some ''2023-01-15 09:00:00'',
              st_cancelledInterval = Hours (Some 1), enrolledTime = None,
              enrolmentInterval = Blank, rating = None, feedback = None \<rparr>,
            \<lparr> username = Some ''ann'', attended = False, tardiness = Some 0,
              cancelled = True, st_cancelledBy = ''ann'',
              st_cancelledTime = Some ''2023-01-15 09:30:00'',
              st_cancelledInterval = Hours (Some (1 / 2)), enrolledTime = None,
              enrolmentInterval = Blank, rating = None, feedback = None \<rparr>] \<rparr>)]"
  by code_simp

text \<open>
  In \<^verbatim>\<open>src/main.js\<close> the difference is taken from the start of the class to the
  cancellation, so it is negative for every cancellation before the start: a student
  who cancelled five days ahead still passes the test against a window of 24 hours.
\<close>

lemma lateCancellation_sign_example:
  "lateCancellation isoDate paySettings (snd (hd twoCancelModel)) ''tom''
     ((hd (students (snd (hd twoCancelModel)))) \<lparr> st_cancelledTime := Some ''2023-01-10 10:00:00'' \<rparr>)"
  unfolding twoCancelModel_value by code_simp

lemma officeModel_value:
  "officeModel =
     [(''c1'',
       \<lparr> slug = ''c1'', scheduledStart = Some ''2023-01-15 10:00:00'',
         scheduledDuration = Some 3600, company = Some ''acme'', course_id = Some ''k1'',
         available_seats = Some 1, cancelledBy = ''office'',
         cancelledTime = ''2023-01-15 09:55:00'',
         cancelledByStudent = False, cancelledByTeacher = False, cancelledByAdmin = True,
         cancelledInterval = Hours (Some (2 / 25)),
         teacher = Some \<lparr> username = Some ''tom'', attended = True, tardiness = Some 400,
                          cancelled = False \<rparr>,
         students =
           [\<lparr> username = Some ''sue'', attended = False, tardiness = Some 0,
              cancelled = False, st_cancelledBy = [], st_cancelledTime = Some [],
              st_cancelledInterval = Blank, enrolledTime = None, enrolmentInterval = Blank,
              rating = None, feedback = None \<rparr>] \<rparr>)]"
  by code_simp


lemma officeAggregate_value:
  "aggregate isoDate paySettings officeModel =
     [(''tom'', [(Some 60,
        (\<lparr> n_attended = 1, n_noShow = 0, n_cancelled = 0, n_late = 1, n_studentNoShow = 1 \<rparr>,
         zeroBucket))])]"
  unfolding officeModel_value by code_simp

lemma twoCancelAggregate_value:
  "aggregate isoDate paySettings twoCancelModel =
     [(''tom'', [(Some 60,
        (\<lparr> n_attended = 1, n_noShow = 0, n_cancelled = 2, n_late = 0, n_studentNoShow = 1 \<rparr>,
         zeroBucket))])]"
  unfolding twoCancelModel_value by code_simp











section \<open>The claims\<close>

subsection \<open>C1: the net count\<close>



subsection \<open>C2: the credit for late cancellations\<close>

text \<open>
  C2 (a defect of the program).  The claim, and the comment in the loop of
  \<^verbatim>\<open>src/main.js\<close> (\<^verbatim>\<open>Only count the first such late student cancellation per class\<close>),
  ask for at most one credit per session.  The loop is a \<^verbatim>\<open>forEach\<close> whose callback
  returns after the increment, which does not end the iteration: for one private
  session with two students who both cancelled late the bucket is credited twice.  The
  loop of the earlier variant of the function, left by \<^verbatim>\<open>break\<close>, credits the same
  session once.
\<close>

theorem C2_double_credit:
  "map (\<lambda>kc. (available_seats (snd kc), length (students (snd kc)))) twoCancelModel = [(Some 1, 2)]
   \<and> payLastMinuteCancellation paySettings
   \<and> n_cancelled (bucketOf (aggregate isoDate paySettings twoCancelModel) ''tom'' (Some 60) Private) = 2
   \<and> n_cancelled (creditFirstCancellation isoDate paySettings (snd (hd twoCancelModel)) ''tom''
                    (students (snd (hd twoCancelModel))) zeroBucket) = 1"
proof -
  have a: "n_cancelled (bucketOf (aggregate isoDate paySettings twoCancelModel) ''tom'' (Some 60) Private) = 2"
    by (simp add: twoCancelAggregate_value bucketOf_def bucketFor_def)
  have b: "n_cancelled (creditFirstCancellation isoDate paySettings (snd (hd twoCancelModel)) ''tom''
                    (students (snd (hd twoCancelModel))) zeroBucket) = 1"
    by (simp add: twoCancelModel_value timestampDiff_def falsy_def numLt_def paySettings_def
        zeroBucket_def)
  show ?thesis using a b by (simp add: twoCancelModel_value paySettings_def)
qed

subsection \<open>C3: student no-shows\<close>

text \<open>
  C3 (as amended).  For every session that reaches a bucket of the teacher hour count
  (its teacher has a user name and its type passes the filter), the
  \<^verbatim>\<open>studentNoShow\<close> counter of the bucket of its teacher, duration and type grows by
  one exactly when the teacher attended, the participant record of the teacher is not
  marked cancelled, the session has at least one student and every student was marked
  absent; otherwise the counter keeps its value.  The cancellation of the session
  itself (\<^verbatim>\<open>cancelledBy\<close>) is not consulted.
\<close>

theorem C3_studentNoShow_step:
  assumes "teacher c = Some t" "username t = Some tName" "tName \<noteq> []"
    and "classTypeFilter st = Both \<or> classTypeFilter st = Only (classType c)"
  shows "n_studentNoShow (bucketOf (aggregateStep dp st c reports) tName (durationMin c) (classType c))
         = n_studentNoShow (bucketOf reports tName (durationMin c) (classType c))
           + (if attended t \<and> \<not> cancelled t \<and> students c \<noteq> []
                 \<and> (\<forall>s\<in>set (students c). \<not> attended s) then 1 else 0)"
  using aggregateStep_bucket [OF assms] accumulate_studentNoShow [of dp st c t tName]
  by (simp add: studentNoShowCase_def)

theorem C3_studentNoShow_step_witness:
  "teacher (snd (hd lessonModel))
     = Some \<lparr> username = Some ''tom'', attended = True, tardiness = Some 400, cancelled = False \<rparr>
   \<and> classTypeFilter paySettings = Both
   \<and> durationMin (snd (hd lessonModel)) = Some 60 \<and> classType (snd (hd lessonModel)) = Private
   \<and> n_studentNoShow (bucketOf (aggregateStep isoDate paySettings (snd (hd lessonModel)) [])
                        ''tom'' (Some 60) Private) = 1"
proof -
  have t: "teacher (snd (hd lessonModel))
     = Some \<lparr> username = Some ''tom'', attended = True, tardiness = Some 400, cancelled = False \<rparr>"
    by (simp add: lessonModel_value)
  have f: "classTypeFilter paySettings = Both \<or> classTypeFilter paySettings = Only (classType (snd (hd lessonModel)))"
    by (simp add: paySettings_def)
  have d: "durationMin (snd (hd lessonModel)) = Some 60" "classType (snd (hd lessonModel)) = Private"
    unfolding lessonModel_value by code_simp+
  have s: "students (snd (hd lessonModel)) \<noteq> []"
      "\<forall>s\<in>set (students (snd (hd lessonModel))). \<not> attended s"
    by (simp_all add: lessonModel_value)
  have z: "n_studentNoShow (bucketOf [] ''tom'' (Some 60) Private) = 0"
    by (simp add: bucketOf_def bucketFor_def zeroBucket_def)
  from C3_studentNoShow_step [OF t _ _ f, of "''tom''" isoDate "[]"] d s z
  show ?thesis using t by (simp add: paySettings_def)
qed

text \<open>
  The claim as stated fails for a session that was cancelled (here by the office) while
  the row of its teacher is marked attended and not cancelled: the counter grows
  although the session was cancelled.
\<close>

theorem C3_cancelled_session_counterexample:
  "cancelledBy (snd (hd officeModel)) = ''office'' \<and> cancelledByAdmin (snd (hd officeModel))
   \<and> map fst officeModel = [''c1'']
   \<and> n_studentNoShow (bucketOf (aggregate isoDate paySettings officeModel) ''tom'' (Some 60) Private) = 1"
proof -
  have "n_studentNoShow (bucketOf (aggregate isoDate paySettings officeModel) ''tom'' (Some 60) Private) = 1"
    by (simp add: officeAggregate_value bucketOf_def bucketFor_def)
  then show ?thesis by (simp add: officeModel_value)
qed

subsection \<open>C4: attribution of a cancellation\<close>

text \<open>
  C4 (as amended).  For every session produced by the normaliser whose
  \<^verbatim>\<open>cancelledBy\<close> is not empty: the student flag is true exactly when the actor is the
  user name of a student of the session, the teacher flag exactly when the actor is
  the user name of its teacher, and the admin flag exactly when neither is; so at
  least one flag is true, and exactly one is true unless the actor is both the teacher
  and a student of the session.
\<close>

theorem C4_attribution:
  assumes "(sl, c) \<in> set (processData dp classesData participantsData)"
    and "cancelledBy c \<noteq> []"
  shows "(cancelledByStudent c \<longleftrightarrow> Some (cancelledBy c) \<in> set (map username (students c)))
       \<and> (cancelledByTeacher c \<longleftrightarrow> teacherName c = Some (cancelledBy c))
       \<and> (cancelledByAdmin c \<longleftrightarrow> \<not> cancelledByStudent c \<and> \<not> cancelledByTeacher c)
       \<and> (cancelledByStudent c \<or> cancelledByTeacher c \<or> cancelledByAdmin c)
       \<and> (exactlyOne (cancelledByStudent c) (cancelledByTeacher c) (cancelledByAdmin c)
            \<longleftrightarrow> \<not> (cancelledByStudent c \<and> cancelledByTeacher c))"
proof -
  obtain cs where c: "c = mkCls dp participantsData cs sl"
    using processData_session [OF assms(1)] by blast
  note fl = mkCls_flags [of dp participantsData cs sl, folded c, OF assms(2)]
  show ?thesis using fl by (auto simp add: exactlyOne_def)
qed

theorem C4_attribution_witness:
  "(fst (hd annModel), snd (hd annModel)) \<in> set annModel
   \<and> cancelledBy (snd (hd annModel)) \<noteq> []
   \<and> cancelledByStudent (snd (hd annModel))
   \<and> exactlyOne (cancelledByStudent (snd (hd annModel))) (cancelledByTeacher (snd (hd annModel)))
        (cancelledByAdmin (snd (hd annModel)))"
proof -
  have m: "(fst (hd annModel), snd (hd annModel)) \<in> set (processData isoDate bobClasses annParticipants)"
    unfolding annModel_def [symmetric] by (simp add: annModel_value)
  have b: "cancelledBy (snd (hd annModel)) \<noteq> []" by (simp add: annModel_value)
  have f: "cancelledByStudent (snd (hd annModel))" "\<not> cancelledByTeacher (snd (hd annModel))"
    by (simp_all add: annModel_value)
  from C4_attribution [OF m b] f
  have "exactlyOne (cancelledByStudent (snd (hd annModel))) (cancelledByTeacher (snd (hd annModel)))
          (cancelledByAdmin (snd (hd annModel)))"
    by blast
  with m b f show ?thesis
    by (simp add: annModel_def [symmetric])
qed

text \<open>
  The claim as stated fails when the cancelling actor is the teacher of the session and
  is also enrolled in it as a student: two flags are true.
\<close>

theorem C4_both_flags_counterexample:
  "map fst bobModel = [''c1'']
   \<and> cancelledBy (snd (hd bobModel)) = ''bob''
   \<and> cancelledByStudent (snd (hd bobModel)) \<and> cancelledByTeacher (snd (hd bobModel))
   \<and> \<not> cancelledByAdmin (snd (hd bobModel))
   \<and> \<not> exactlyOne (cancelledByStudent (snd (hd bobModel))) (cancelledByTeacher (snd (hd bobModel)))
        (cancelledByAdmin (snd (hd bobModel)))"
  by (simp add: bobModel_value exactlyOne_def)

subsection \<open>C5: the range of the tardiness\<close>

text \<open>
  C5 (as amended).  For every participant (teacher or student) of every session
  produced by the normaliser: when the scheduled duration of the session is a number
  not below \<open>-3600\<close> and the tardiness of the participant is a number, the tardiness
  lies in the closed interval from \<open>-3600\<close> to the scheduled duration.
\<close>

theorem C5_tardiness_clamped:
  assumes "(sl, c) \<in> set (processData dp classesData participantsData)"
    and "scheduledDuration c = Some d" and "- 3600 \<le> d"
    and "Some t \<in> set (tardinesses c)"
  shows "- 3600 \<le> t \<and> t \<le> d \<and> tardinessInRange c (Some t)"
proof -
  obtain cs where c: "c = mkCls dp participantsData cs sl"
    using processData_session [OF assms(1)] by blast
  obtain raw where "Some t = clampTardiness raw (Some d)"
    using mkCls_tardinesses [of "Some t" dp participantsData cs sl] assms(2,4) c by auto
  then have "- 3600 \<le> t \<and> t \<le> d"
    using clamp_range [of raw d t] assms(3) by simp
  then show ?thesis by (simp add: tardinessInRange_def assms(2))
qed

theorem C5_tardiness_clamped_witness:
  "(fst (hd lessonModel), snd (hd lessonModel)) \<in> set lessonModel
   \<and> scheduledDuration (snd (hd lessonModel)) = Some 3600
   \<and> Some 400 \<in> set (tardinesses (snd (hd lessonModel)))
   \<and> - 3600 \<le> (400::int) \<and> (400::int) \<le> 3600
   \<and> tardinessInRange (snd (hd lessonModel)) (Some 400)"
proof -
  have m: "(fst (hd lessonModel), snd (hd lessonModel))
             \<in> set (processData isoDate lessonClasses lessonParticipants)"
    unfolding lessonModel_def [symmetric] by (simp add: lessonModel_value)
  have d: "scheduledDuration (snd (hd lessonModel)) = Some 3600"
    by (simp add: lessonModel_value)
  have t: "Some 400 \<in> set (tardinesses (snd (hd lessonModel)))"
    by (simp add: lessonModel_value tardinesses_def)
  from C5_tardiness_clamped [OF m d _ t] m d t show ?thesis
    by (simp add: lessonModel_def [symmetric])
qed

text \<open>
  The claim as stated fails for a class whose end lies more than an hour before its
  start: the scheduled duration is \<open>-7200\<close>, and the tardiness of the student, who
  joined five minutes late, is cut down to \<open>-7200\<close>, below \<open>-3600\<close>.
\<close>

theorem C5_tardiness_counterexample:
  "map (scheduledDuration \<circ> snd) backwardModel = [Some (- 7200)]
   \<and> map (tardinesses \<circ> snd) backwardModel = [[Some (- 7200)]]
   \<and> \<not> list_all (\<lambda>kc. list_all (tardinessInRange (snd kc)) (tardinesses (snd kc))) backwardModel"
  by (simp add: backwardModel_value tardinesses_def tardinessInRange_def)

subsection \<open>C6: differences of timestamps\<close>

text \<open>
  C6 (as amended).  The difference of two timestamps is \<open>0\<close> when either of them is
  missing (absent or empty), and then the program does not fail; when both are present
  and one of them is not a date the host can read, the difference is \<^verbatim>\<open>NaN\<close>, not
  \<open>0\<close>.  In particular the scheduled duration of a session is \<open>0\<close> when the start or
  the end of its class row is missing.
\<close>

theorem C6_timestampDiff_missing:
  "(falsy a \<or> falsy b \<longrightarrow> timestampDiff dp a b = Some 0)
   \<and> (\<not> falsy a \<and> \<not> falsy b \<and>
        (dp (replaceSpaceT (orEmpty a)) = None \<or> dp (replaceSpaceT (orEmpty b)) = None)
        \<longrightarrow> timestampDiff dp a b = None)
   \<and> (falsy (col cs 0) \<or> falsy (col cs 1)
        \<longrightarrow> scheduledDuration (mkCls dp participantsData cs sl) = Some 0)"
  by (auto simp add: timestampDiff_def mkCls_fields split: option.splits)

theorem C6_timestampDiff_missing_witness:
  "falsy None \<and> timestampDiff isoDate None (Some ''2023-01-15 10:00:00'') = Some 0
   \<and> \<not> falsy (Some ''n/a'') \<and> \<not> falsy (Some ''2023-01-15 10:00:00'')
   \<and> isoDate (replaceSpaceT (orEmpty (Some ''n/a''))) = None
   \<and> timestampDiff isoDate (Some ''n/a'') (Some ''2023-01-15 10:00:00'') = None
   \<and> falsy (col [''2023-01-15 10:00:00''] 1)
   \<and> scheduledDuration (mkCls isoDate [] [''2023-01-15 10:00:00''] ''c1'') = Some 0"
proof -
  have f: "falsy None" by (simp add: falsy_def)
  have g: "\<not> falsy (Some ''n/a'')" "\<not> falsy (Some ''2023-01-15 10:00:00'')"
    by (simp_all add: falsy_def)
  have n: "isoDate (replaceSpaceT (orEmpty (Some ''n/a''))) = None"
    by (simp add: isoDate_def orEmpty_def)
  have h: "falsy (col [''2023-01-15 10:00:00''] 1)" by (simp add: falsy_def col_def)
  from C6_timestampDiff_missing [of None "Some ''2023-01-15 10:00:00''" isoDate
         "[''2023-01-15 10:00:00'']" "[]" "''c1''"]
       C6_timestampDiff_missing [of "Some ''n/a''" "Some ''2023-01-15 10:00:00''" isoDate
         "[''2023-01-15 10:00:00'']" "[]" "''c1''"]
       f g n h
  show ?thesis by simp
qed

text \<open>
  The claim as stated fails for a timestamp that is present and is not a date: the
  difference is \<^verbatim>\<open>NaN\<close>, not \<open>0\<close>.
\<close>

theorem C6_unparseable_counterexample:
  "\<not> falsy (Some ''n/a'') \<and> isoDate (replaceSpaceT ''n/a'') = None
   \<and> timestampDiff isoDate (Some ''n/a'') (Some ''2023-01-15 10:00:00'') = None
   \<and> timestampDiff isoDate (Some ''n/a'') (Some ''2023-01-15 10:00:00'') \<noteq> Some 0"
  by (simp add: falsy_def isoDate_def timestampDiff_def orEmpty_def)

subsection \<open>C7: private and group sessions\<close>




subsection \<open>C8: sessions without a teacher\<close>




subsection \<open>C9: the attendance rate of a course\<close>



subsection \<open>C10: the company of a student\<close>



end
